theory Spec2Isabelle
  imports Main "HOL-Library.AList"
begin

section \<open>Values, exceptions and the outside world\<close>

text \<open>
  A parsed JSON document, as \<^verbatim>\<open>response.json()\<close> returns it. \<open>JNull\<close> is Python's
  \<^verbatim>\<open>None\<close>; \<open>JObj\<close> is a \<^verbatim>\<open>dict\<close> with string keys, in insertion order, read with
  \<open>map_of\<close>. JSON numbers with a fraction or an exponent (Python floats) are not
  represented: the endpoints' numbers are integer seconds and amounts.
\<close>

datatype json =
    JNull
  | JBool bool
  | JInt int
  | JStr string
  | JArr "json list"
  | JObj "(string \<times> json) list"

text \<open>
  The exceptions that can travel through the client. \<open>RequestException\<close> stands for the
  transport failures of the \<^verbatim>\<open>requests\<close> library (connection refused, timeout);
  \<open>PyException\<close> is any other \<^verbatim>\<open>Exception\<close> the transport may raise. The argument of
  \<open>ZohoAuthError\<close> and \<open>ZohoAPIError\<close> is the cause attached by \<^verbatim>\<open>raise ... from e\<close>.
  \<open>RetryError n e\<close> is the error of the \<^verbatim>\<open>tenacity\<close> library: \<open>n\<close> is the number of the
  last attempt and \<open>e\<close> the exception of that attempt.
\<close>

datatype exn =
    PyException string
  | RequestException string
  | HTTPError nat
  | JSONDecodeError
  | KeyError string
  | TypeError
  | AttributeError
  | OverflowError
  | ZohoAuthError exn
  | ZohoAPIError exn
  | RetryError nat exn

text \<open>
  \<^verbatim>\<open>isinstance(e, requests.exceptions.RequestException)\<close>: the transport failures, the
  \<^verbatim>\<open>HTTPError\<close> of \<^verbatim>\<open>raise_for_status\<close> and (requests 2.27 and later) the
  \<^verbatim>\<open>JSONDecodeError\<close> of \<^verbatim>\<open>response.json()\<close>.
\<close>

fun is_RequestException :: "exn \<Rightarrow> bool" where
  "is_RequestException (RequestException m) = True"
| "is_RequestException (HTTPError c) = True"
| "is_RequestException JSONDecodeError = True"
| "is_RequestException e = False"

text \<open>
  What one HTTP call gives back: an exception, or a response with its status code and its
  body (\<open>None\<close> when the body is not JSON).
\<close>

datatype http_outcome =
    Raises exn
  | Response nat "json option"

type_synonym params = "(string \<times> string) list"

text \<open>What the client does to the outside world, in order.\<close>

datatype event =
    Post string params
  | Request string string json "params option" "json option"
  | Sleep int

text \<open>
  Points in time are microseconds since 0001-01-01 00:00:00, the resolution and the origin
  of \<^verbatim>\<open>datetime\<close>. The environment fixes what each reading of the clock and each HTTP call
  returns: \<open>clock E n\<close> is the value of the \<open>n\<close>-th \<^verbatim>\<open>datetime.now()\<close>, \<open>http E n\<close> the outcome
  of the \<open>n\<close>-th call of \<^verbatim>\<open>requests.post\<close> or \<^verbatim>\<open>requests.request\<close>.
\<close>

record env =
  clock :: "nat \<Rightarrow> int"
  http :: "nat \<Rightarrow> http_outcome"

record ZohoConfig =
  client_id :: string
  client_secret :: string
  refresh_token :: string
  organization_id :: string
  api_base_url :: string
  auth_base_url :: string

text \<open>
  A \<^verbatim>\<open>ZohoBooks\<close> object (\<open>config\<close>, \<open>self_access_token\<close> for \<^verbatim>\<open>self._access_token\<close>,
  \<open>self_token_expires_at\<close> for \<^verbatim>\<open>self._token_expires_at\<close>) together with the position in
  the environment: the number of clock readings and of HTTP calls made so far, and the
  events so far.
\<close>

record ZohoBooks =
  config :: ZohoConfig
  self_access_token :: json
  self_token_expires_at :: "int option"
  ticks :: nat
  calls :: nat
  trace :: "event list"

section \<open>Python and library operations used by the client\<close>

text \<open>Truth value of a JSON value, as \<^verbatim>\<open>not x\<close> tests it.\<close>

fun truthy :: "json \<Rightarrow> bool" where
  "truthy JNull = False"
| "truthy (JBool b) = b"
| "truthy (JInt n) = (n \<noteq> 0)"
| "truthy (JStr s) = (s \<noteq> [])"
| "truthy (JArr xs) = (xs \<noteq> [])"
| "truthy (JObj kv) = (kv \<noteq> [])"

text \<open>\<^verbatim>\<open>data[k]\<close> with a string key: only a dict can be subscripted by a string.\<close>

fun getitem :: "json \<Rightarrow> string \<Rightarrow> exn + json" where
  "getitem (JObj kv) k = (case map_of kv k of None \<Rightarrow> Inl (KeyError k) | Some v \<Rightarrow> Inr v)"
| "getitem d k = Inl TypeError"

text \<open>\<^verbatim>\<open>data.get(k, default)\<close>: only a dict has the method.\<close>

fun dict_get :: "json \<Rightarrow> string \<Rightarrow> json \<Rightarrow> exn + json" where
  "dict_get (JObj kv) k d = (case map_of kv k of None \<Rightarrow> Inr d | Some v \<Rightarrow> Inr v)"
| "dict_get j k d = Inl AttributeError"

text \<open>
  \<^verbatim>\<open>timedelta(seconds=v)\<close>, in microseconds. A bool is an int in Python; a string, a list,
  a dict and \<^verbatim>\<open>None\<close> are a \<^verbatim>\<open>TypeError\<close>; more than 999999999 days either way is an
  \<^verbatim>\<open>OverflowError\<close>.
\<close>

fun timedelta :: "json \<Rightarrow> exn + int" where
  "timedelta (JInt n) =
     (if - 999999999 \<le> n div 86400 \<and> n div 86400 \<le> 999999999
      then Inr (n * 1000000) else Inl OverflowError)"
| "timedelta (JBool b) = Inr (if b then 1000000 else 0)"
| "timedelta v = Inl TypeError"

text \<open>
  The last representable instant is 9999-12-31 23:59:59.999999, day 3652059 of the
  calendar.
\<close>

definition datetime_max :: int where
  "datetime_max = 3652059 * 86400 * 1000000 - 1"

text \<open>\<^verbatim>\<open>t + d\<close> on a \<^verbatim>\<open>datetime\<close>: \<^verbatim>\<open>OverflowError\<close> outside the years 1 to 9999.\<close>

definition datetime_add :: "int \<Rightarrow> int \<Rightarrow> exn + int" where
  "datetime_add t d =
     (if 0 \<le> t + d \<and> t + d \<le> datetime_max then Inr (t + d) else Inl OverflowError)"

text \<open>\<^verbatim>\<open>response.raise_for_status()\<close>: an \<^verbatim>\<open>HTTPError\<close> for the 4xx and 5xx codes.\<close>

definition raise_for_status :: "nat \<Rightarrow> exn option" where
  "raise_for_status code = (if 400 \<le> code \<and> code < 600 then Some (HTTPError code) else None)"

text \<open>
  \<^verbatim>\<open>wait_exponential(multiplier, min, max)\<close> of tenacity, at the attempt that has just
  failed: the multiplier times \<open>2 ^ (attempt - 1)\<close>, clamped between \<open>min\<close> and \<open>max\<close>.
\<close>

definition wait_exponential :: "int \<Rightarrow> int \<Rightarrow> int \<Rightarrow> nat \<Rightarrow> int" where
  "wait_exponential multiplier mn mx attempt_number =
     max (max 0 mn) (min (multiplier * 2 ^ (attempt_number - 1)) mx)"

section \<open>The token manager\<close>

text \<open>
  The entries written to the log are left out throughout: they change neither the object
  nor what is sent.

  \<^verbatim>\<open>ZohoBooks._token_expired\<close>: without an expiry the clock is not read.
\<close>

definition token_expired :: "env \<Rightarrow> ZohoBooks \<Rightarrow> bool \<times> ZohoBooks" where
  "token_expired E s =
     (case self_token_expires_at s of
        None \<Rightarrow> (True, s)
      | Some t \<Rightarrow> (clock E (ticks s) \<ge> t, s\<lparr>ticks := Suc (ticks s)\<rparr>))"

text \<open>
  The body of the \<^verbatim>\<open>try\<close> in \<^verbatim>\<open>ZohoBooks._refresh_access_token\<close>. The token is assigned
  as soon as it is read; the clock is read next, then \<^verbatim>\<open>expires_in\<close> is turned into a
  \<^verbatim>\<open>timedelta\<close> and added.
\<close>

definition refresh_try :: "env \<Rightarrow> ZohoBooks \<Rightarrow> (exn + unit) \<times> ZohoBooks" where
  "refresh_try E s =
     (let c = config s;
          s0 = s\<lparr>calls := Suc (calls s),
                 trace := trace s @ [Post (auth_base_url c @ ''/token'')
                   [(''refresh_token'', refresh_token c),
                    (''client_id'', client_id c),
                    (''client_secret'', client_secret c),
                    (''grant_type'', ''refresh_token'')]]\<rparr>
      in case http E (calls s) of
           Raises e \<Rightarrow> (Inl e, s0)
         | Response code body \<Rightarrow>
             (case raise_for_status code of
                Some e \<Rightarrow> (Inl e, s0)
              | None \<Rightarrow>
                 (case body of
                    None \<Rightarrow> (Inl JSONDecodeError, s0)
                  | Some data \<Rightarrow>
                     (case getitem data ''access_token'' of
                        Inl e \<Rightarrow> (Inl e, s0)
                      | Inr t \<Rightarrow>
                         (let s1 = s0\<lparr>self_access_token := t\<rparr>;
                              now = clock E (ticks s1);
                              s2 = s1\<lparr>ticks := Suc (ticks s1)\<rparr>
                          in case dict_get data ''expires_in'' (JInt 3600) of
                               Inl e \<Rightarrow> (Inl e, s2)
                             | Inr v \<Rightarrow>
                                (case timedelta v of
                                   Inl e \<Rightarrow> (Inl e, s2)
                                 | Inr d \<Rightarrow>
                                    (case datetime_add now d of
                                       Inl e \<Rightarrow> (Inl e, s2)
                                     | Inr t' \<Rightarrow>
                                        (Inr (), s2\<lparr>self_token_expires_at := Some t'\<rparr>))))))))"

text \<open>
  \<^verbatim>\<open>ZohoBooks._refresh_access_token\<close>: \<^verbatim>\<open>except Exception as e\<close> turns every exception of
  the body into \<^verbatim>\<open>ZohoAuthError\<close> with \<open>e\<close> as its cause; the object keeps what the body
  had assigned before it raised.
\<close>

definition refresh_access_token :: "env \<Rightarrow> ZohoBooks \<Rightarrow> (exn + unit) \<times> ZohoBooks" where
  "refresh_access_token E s =
     (case refresh_try E s of
        (Inl e, s') \<Rightarrow> (Inl (ZohoAuthError e), s')
      | (Inr u, s') \<Rightarrow> (Inr (), s'))"

text \<open>
  The property \<^verbatim>\<open>ZohoBooks.access_token\<close>: \<^verbatim>\<open>or\<close> does not evaluate
  \<^verbatim>\<open>self._token_expired\<close> when there is no token.
\<close>

definition access_token :: "env \<Rightarrow> ZohoBooks \<Rightarrow> (exn + json) \<times> ZohoBooks" where
  "access_token E s =
     (let (stale, s1) = (if \<not> truthy (self_access_token s) then (True, s)
                          else token_expired E s)
      in if stale
         then (case refresh_access_token E s1 of
                 (Inl e, s2) \<Rightarrow> (Inl e, s2)
               | (Inr u, s2) \<Rightarrow> (Inr (self_access_token s2), s2))
         else (Inr (self_access_token s1), s1))"

section \<open>The request executor\<close>

text \<open>The body of the \<^verbatim>\<open>try\<close> in \<^verbatim>\<open>ZohoBooks._make_request\<close>.\<close>

definition make_request_try ::
  "env \<Rightarrow> string \<Rightarrow> string \<Rightarrow> params option \<Rightarrow> json option \<Rightarrow> ZohoBooks
     \<Rightarrow> (exn + json) \<times> ZohoBooks" where
  "make_request_try E method endpoint ps data s =
     (case access_token E s of
        (Inl e, s1) \<Rightarrow> (Inl e, s1)
      | (Inr token, s1) \<Rightarrow>
         (let url = api_base_url (config s1) @ ''/'' @ endpoint;
              s2 = s1\<lparr>calls := Suc (calls s1),
                      trace := trace s1 @ [Request method url token ps data]\<rparr>
          in case http E (calls s1) of
               Raises e \<Rightarrow> (Inl e, s2)
             | Response code body \<Rightarrow>
                 (case raise_for_status code of
                    Some e \<Rightarrow> (Inl e, s2)
                  | None \<Rightarrow>
                     (case body of
                        None \<Rightarrow> (Inl JSONDecodeError, s2)
                      | Some j \<Rightarrow> (Inr j, s2)))))"

text \<open>
  One call of the undecorated \<^verbatim>\<open>_make_request\<close>: \<^verbatim>\<open>except RequestException as e\<close> wraps
  the exceptions of that class in \<^verbatim>\<open>ZohoAPIError\<close>; any other exception, the
  \<^verbatim>\<open>ZohoAuthError\<close> of the token manager among them, passes through.
\<close>

definition make_request_once ::
  "env \<Rightarrow> string \<Rightarrow> string \<Rightarrow> params option \<Rightarrow> json option \<Rightarrow> ZohoBooks
     \<Rightarrow> (exn + json) \<times> ZohoBooks" where
  "make_request_once E method endpoint ps data s =
     (case make_request_try E method endpoint ps data s of
        (Inl e, s') \<Rightarrow> (Inl (if is_RequestException e then ZohoAPIError e else e), s')
      | (Inr j, s') \<Rightarrow> (Inr j, s'))"

text \<open>
  The \<^verbatim>\<open>@retry(stop=..., wait=...)\<close> decorator of tenacity with its defaults
  (\<^verbatim>\<open>retry_if_exception_type()\<close>, \<^verbatim>\<open>reraise=False\<close>): call the function; a result is
  returned; after an exception, stop when \<open>stop\<close> holds of the attempt number, raising
  \<^verbatim>\<open>RetryError\<close> from the exception of this attempt, and otherwise sleep
  \<open>wait attempt_number\<close> and call again.
\<close>

function retry ::
  "nat \<Rightarrow> (nat \<Rightarrow> int) \<Rightarrow> (ZohoBooks \<Rightarrow> (exn + 'a) \<times> ZohoBooks) \<Rightarrow> nat \<Rightarrow> ZohoBooks
     \<Rightarrow> (exn + 'a) \<times> ZohoBooks" where
  "retry stop_after_attempt wait f attempt_number s =
     (case f s of
        (Inr r, s1) \<Rightarrow> (Inr r, s1)
      | (Inl e, s1) \<Rightarrow>
         (if attempt_number \<ge> stop_after_attempt
          then (Inl (RetryError attempt_number e), s1)
          else retry stop_after_attempt wait f (Suc attempt_number)
                 (s1\<lparr>trace := trace s1 @ [Sleep (wait attempt_number)]\<rparr>)))"
  by pat_completeness auto
termination
  by (relation "measure (\<lambda>(m, w, f, n, s). m - n)") auto

declare retry.simps [simp del]

text \<open>
  \<^verbatim>\<open>ZohoBooks._make_request\<close> as decorated: three attempts, numbered from 1, with
  \<^verbatim>\<open>wait_exponential(multiplier=1, min=4, max=10)\<close> between them.
\<close>

definition make_request ::
  "env \<Rightarrow> string \<Rightarrow> string \<Rightarrow> params option \<Rightarrow> json option \<Rightarrow> ZohoBooks
     \<Rightarrow> (exn + json) \<times> ZohoBooks" where
  "make_request E method endpoint ps data s =
     retry 3 (wait_exponential 1 4 10) (make_request_once E method endpoint ps data) 1 s"

section \<open>The invoice accessor\<close>

text \<open>
  The query parameters built by \<^verbatim>\<open>ZohoBooks.get_invoices\<close>: \<^verbatim>\<open>if from_date:\<close> holds of an
  argument that is neither \<^verbatim>\<open>None\<close> nor the empty string.
\<close>

definition invoice_params ::
  "ZohoConfig \<Rightarrow> string option \<Rightarrow> string option \<Rightarrow> string option \<Rightarrow> params" where
  "invoice_params c from_date to_date status =
     (let p0 = [(''organization_id'', organization_id c)];
          p1 = (case from_date of
                  Some v \<Rightarrow> if v \<noteq> [] then AList.update ''date_start'' v p0 else p0
                | None \<Rightarrow> p0);
          p2 = (case to_date of
                  Some v \<Rightarrow> if v \<noteq> [] then AList.update ''date_end'' v p1 else p1
                | None \<Rightarrow> p1);
          p3 = (case status of
                  Some v \<Rightarrow> if v \<noteq> [] then AList.update ''status'' v p2 else p2
                | None \<Rightarrow> p2)
      in p3)"

text \<open>
  \<^verbatim>\<open>ZohoBooks.get_invoices\<close>: the parameters go to \<^verbatim>\<open>_make_request\<close> with method GET and
  endpoint \<^verbatim>\<open>invoices\<close>; the result is \<^verbatim>\<open>response.get("invoices", [])\<close>.
\<close>

definition get_invoices ::
  "env \<Rightarrow> string option \<Rightarrow> string option \<Rightarrow> string option \<Rightarrow> ZohoBooks
     \<Rightarrow> (exn + json) \<times> ZohoBooks" where
  "get_invoices E from_date to_date status s =
     (case make_request E ''GET'' ''invoices''
             (Some (invoice_params (config s) from_date to_date status)) None s of
        (Inl e, s') \<Rightarrow> (Inl e, s')
      | (Inr response, s') \<Rightarrow> (dict_get response ''invoices'' (JArr []), s'))"

section \<open>Observations on a run\<close>

text \<open>The delays slept, and the token requests posted, in a sequence of events.\<close>

fun sleeps :: "event list \<Rightarrow> int list" where
  "sleeps [] = []"
| "sleeps (Sleep d # evs) = d # sleeps evs"
| "sleeps (ev # evs) = sleeps evs"


text \<open>The query parameters of the resource requests in a sequence of events.\<close>

fun request_params :: "event list \<Rightarrow> params option list" where
  "request_params [] = []"
| "request_params (Request m url tok ps body # evs) = ps # request_params evs"
| "request_params (ev # evs) = request_params evs"



section \<open>Fixtures\<close>

text \<open>The configuration of the test suite, with the default base URLs.\<close>

definition test_config :: ZohoConfig where
  "test_config =
     \<lparr>client_id = ''test_client_id'', client_secret = ''test_client_secret'',
      refresh_token = ''test_refresh_token'', organization_id = ''test_org_id'',
      api_base_url = ''https://books.zoho.com/api/v3'',
      auth_base_url = ''https://accounts.zoho.com/oauth/v2''\<rparr>"

text \<open>A new \<^verbatim>\<open>ZohoBooks()\<close>: no token, no expiry.\<close>

definition new_books :: ZohoBooks where
  "new_books =
     \<lparr>config = test_config, self_access_token = JNull, self_token_expires_at = None,
      ticks = 0, calls = 0, trace = []\<rparr>"

text \<open>
  A client holding \<^verbatim>\<open>test_token\<close>, as the request tests set it up; the expiry is the
  instant 7200 s.
\<close>

definition books_with_token :: ZohoBooks where
  "books_with_token =
     \<lparr>config = test_config, self_access_token = JStr ''test_token'',
      self_token_expires_at = Some 7200000000, ticks = 0, calls = 0, trace = []\<rparr>"

text \<open>The clock stands at the instant 3600 s and every HTTP call has outcome \<open>r\<close>.\<close>

definition always :: "http_outcome \<Rightarrow> env" where
  "always r = \<lparr>clock = (\<lambda>n. 3600000000), http = (\<lambda>n. r)\<rparr>"

text \<open>
  An authorization response \<^verbatim>\<open>{"access_token": tok, "expires_in": expires_in}\<close> with status
  200, a refused connection, and the two invoices of the test suite.
\<close>

definition token_response :: "json \<Rightarrow> json \<Rightarrow> http_outcome" where
  "token_response tok expires_in =
     Response 200 (Some (JObj [(''access_token'', tok), (''expires_in'', expires_in)]))"

definition connection_refused :: http_outcome where
  "connection_refused = Raises (RequestException ''Connection refused'')"

definition two_invoices :: json where
  "two_invoices =
     JArr [JObj [(''id'', JStr ''1''), (''amount'', JInt 100)],
           JObj [(''id'', JStr ''2''), (''amount'', JInt 200)]]"

section \<open>Basic facts\<close>

lemmas refresh_defs =
  refresh_access_token_def refresh_try_def raise_for_status_def datetime_add_def Let_def

lemmas run_defs =
  make_request_def make_request_once_def make_request_try_def access_token_def
  token_expired_def refresh_access_token_def refresh_try_def raise_for_status_def
  datetime_add_def datetime_max_def wait_exponential_def Let_def
  always_def new_books_def books_with_token_def test_config_def
  token_response_def connection_refused_def two_invoices_def


lemma sleeps_append: "sleeps (xs @ ys) = sleeps xs @ sleeps ys"
  by (induction xs rule: sleeps.induct) auto


subsection \<open>One refresh\<close>

text \<open>A refresh posts exactly one token request, whatever comes back.\<close>

lemma refresh_trace:
  "trace (snd (refresh_access_token E s)) =
     trace s @ [Post (auth_base_url (config s) @ ''/token'')
                   [(''refresh_token'', refresh_token (config s)),
                    (''client_id'', client_id (config s)),
                    (''client_secret'', client_secret (config s)),
                    (''grant_type'', ''refresh_token'')]]"
  by (simp add: refresh_defs split: http_outcome.splits option.splits sum.splits)

lemma refresh_calls: "calls (snd (refresh_access_token E s)) = Suc (calls s)"
  by (simp add: refresh_defs split: http_outcome.splits option.splits sum.splits)

lemma refresh_config: "config (snd (refresh_access_token E s)) = config s"
  by (simp add: refresh_defs split: http_outcome.splits option.splits sum.splits)

text \<open>
  The only exception that leaves a refresh is \<open>ZohoAuthError\<close>, and its cause is the
  exception of the body.
\<close>

lemma refresh_raises_only_ZohoAuthError:
  "fst (refresh_access_token E s) = Inl e \<Longrightarrow>
     \<exists>c. e = ZohoAuthError c \<and> fst (refresh_try E s) = Inl c"
  by (auto simp: refresh_access_token_def split: prod.splits sum.splits)

text \<open>
  A failed refresh never touches the expiry, and it leaves the token alone when the call
  raises, when the status is 4xx or 5xx, and when the payload has no \<^verbatim>\<open>access_token\<close>.
\<close>

lemma refresh_failure_keeps_expiry:
  "fst (refresh_access_token E s) = Inl e \<Longrightarrow>
     self_token_expires_at (snd (refresh_access_token E s)) = self_token_expires_at s"
  by (auto simp: refresh_defs split: http_outcome.splits option.splits sum.splits if_splits)

lemma refresh_failure_before_token_keeps_token:
  assumes "http E (calls s) = Raises e
     \<or> (\<exists>code body. http E (calls s) = Response code body \<and> 400 \<le> code \<and> code < 600)
     \<or> (\<exists>code. http E (calls s) = Response code None)
     \<or> (\<exists>code data e'. http E (calls s) = Response code (Some data)
           \<and> getitem data ''access_token'' = Inl e')"
  shows "(\<exists>c. fst (refresh_access_token E s) = Inl (ZohoAuthError c))
     \<and> self_access_token (snd (refresh_access_token E s)) = self_access_token s
     \<and> self_token_expires_at (snd (refresh_access_token E s)) = self_token_expires_at s"
  using assms
  by (auto simp: refresh_defs split: http_outcome.splits option.splits sum.splits)

subsection \<open>One attempt of a request\<close>

lemma token_expired_trace: "trace (snd (token_expired E s)) = trace s"
  by (simp add: token_expired_def split: option.splits)

lemma access_token_sleeps: "sleeps (trace (snd (access_token E s))) = sleeps (trace s)"
  using refresh_trace [of E s] refresh_trace [of E "snd (token_expired E s)"]
    token_expired_trace [of E s]
  by (auto simp: access_token_def sleeps_append split: prod.splits sum.splits)


lemma make_request_once_sleeps:
  "sleeps (trace (snd (make_request_once E m ep ps d s))) = sleeps (trace s)"
  using access_token_sleeps [of E s]
  by (auto simp: make_request_once_def make_request_try_def Let_def sleeps_append
      split: prod.splits sum.splits http_outcome.splits option.splits)


subsection \<open>The retry loop\<close>

lemma retry_result:
  "f s = (Inr r, s1) \<Longrightarrow> retry m w f n s = (Inr r, s1)"
  by (simp add: retry.simps [of m w f n s])

lemma retry_stop:
  "f s = (Inl e, s1) \<Longrightarrow> m \<le> n \<Longrightarrow> retry m w f n s = (Inl (RetryError n e), s1)"
  by (simp add: retry.simps [of m w f n s])

lemma retry_again:
  "f s = (Inl e, s1) \<Longrightarrow> \<not> m \<le> n \<Longrightarrow>
     retry m w f n s = retry m w f (Suc n) (s1\<lparr>trace := trace s1 @ [Sleep (w n)]\<rparr>)"
  by (simp add: retry.simps [of m w f n s])

text \<open>A loop that fails has made its last attempt at number \<open>m\<close> and raises \<open>RetryError\<close>.\<close>

lemma retry_failure:
  "fst (retry m w f n s) = Inl e \<Longrightarrow> n \<le> m \<Longrightarrow> \<exists>c. e = RetryError m c"
proof (induction m w f n s rule: retry.induct)
  case (1 m w f n s)
  obtain r s1 where fs: "f s = (r, s1)" by (cases "f s")
  show ?case
  proof (cases r)
    case (Inr x)
    with fs "1.prems" show ?thesis by (simp add: retry_result)
  next
    case (Inl e1)
    show ?thesis
    proof (cases "m \<le> n")
      case True
      with fs Inl "1.prems" show ?thesis by (auto simp: retry_stop)
    next
      case False
      with fs Inl "1.prems" "1.IH"
      show ?thesis by (auto simp: retry_again)
    qed
  qed
qed

text \<open>A loop that fails has slept \<open>w n\<close>, ..., \<open>w (m - 1)\<close>, once between two attempts.\<close>

lemma retry_failure_sleeps:
  "\<forall>s. sleeps (trace (snd (f s))) = sleeps (trace s) \<Longrightarrow>
   fst (retry m w f n s) = Inl e \<Longrightarrow> n \<le> m \<Longrightarrow>
     sleeps (trace (snd (retry m w f n s))) = sleeps (trace s) @ map w [n..<m]"
proof (induction m w f n s rule: retry.induct)
  case (1 m w f n s)
  obtain r s1 where fs: "f s = (r, s1)" by (cases "f s")
  have s1: "sleeps (trace s1) = sleeps (trace s)" using "1.prems"(1) fs by (metis snd_conv)
  show ?case
  proof (cases r)
    case (Inr x)
    with fs "1.prems" show ?thesis by (simp add: retry_result)
  next
    case (Inl e1)
    show ?thesis
    proof (cases "m \<le> n")
      case True
      with fs Inl "1.prems" s1 show ?thesis by (auto simp: retry_stop)
    next
      case False
      with fs Inl "1.prems" s1 "1.IH"
      show ?thesis by (auto simp: retry_again sleeps_append upt_conv_Cons)
    qed
  qed
qed


subsection \<open>The decorated request\<close>

text \<open>
  Whatever makes the attempts fail, the decorated \<^verbatim>\<open>_make_request\<close> raises the
  \<open>RetryError\<close> of the third attempt, never \<open>ZohoAPIError\<close> itself.
\<close>

lemma make_request_failure_is_RetryError:
  "fst (make_request E m ep ps d s) = Inl e \<Longrightarrow> \<exists>c. e = RetryError 3 c"
  using retry_failure [of 3 "wait_exponential 1 4 10" "make_request_once E m ep ps d" 1 s e]
  by (simp add: make_request_def)


text \<open>The delay after attempt \<open>n\<close>: 4, 4, 4, 8, and 10 from the fifth attempt on.\<close>

lemma wait_exponential_values:
  "wait_exponential 1 4 10 n = (if n \<le> 3 then 4 else if n = 4 then 8 else 10)"
proof -
  have big: "5 \<le> n \<Longrightarrow> (10::int) \<le> 2 ^ (n - 1)" for n :: nat
  proof -
    assume "5 \<le> n"
    then have "(2::int) ^ 4 \<le> 2 ^ (n - 1)" by (intro power_increasing) auto
    then show ?thesis by simp
  qed
  consider "n = 0" | "n = 1" | "n = 2" | "n = 3" | "n = 4" | "5 \<le> n" by linarith
  then show ?thesis
    using big by cases (auto simp: wait_exponential_def)
qed


section \<open>The token manager: claims C2, C3, C4, C8, C10\<close>



text \<open>
  Claim C4. When the authorization response is a JSON object with \<^verbatim>\<open>access_token\<close> \<open>T\<close>
  and the refresh returns normally, the stored token is \<open>T\<close> and the stored expiry is the
  clock reading of the refresh plus \<^verbatim>\<open>expires_in\<close> seconds, 3600 seconds when the
  response has no \<^verbatim>\<open>expires_in\<close>.
\<close>

theorem refresh_success_token_and_expiry:
  assumes "http E (calls s) = Response code (Some (JObj kv))"
    and "map_of kv ''access_token'' = Some T"
    and "refresh_access_token E s = (Inr u, s')"
  shows "self_access_token s' = T
    \<and> (map_of kv ''expires_in'' = None \<longrightarrow>
         self_token_expires_at s' = Some (clock E (ticks s) + 3600 * 1000000))
    \<and> (\<forall>n. map_of kv ''expires_in'' = Some (JInt n) \<longrightarrow>
         self_token_expires_at s' = Some (clock E (ticks s) + n * 1000000))"
  using assms
  by (auto simp: refresh_defs split: option.splits sum.splits if_splits)

text \<open>
  The response \<^verbatim>\<open>{"access_token": "T", "expires_in": 3600}\<close> at 3600 s: the token becomes
  \<^verbatim>\<open>T\<close> and the expiry 7200 s.
\<close>

theorem refresh_success_token_and_expiry_witness:
  "self_access_token (snd (refresh_access_token
       (always (token_response (JStr ''T'') (JInt 3600))) new_books)) = JStr ''T''
   \<and> self_token_expires_at (snd (refresh_access_token
       (always (token_response (JStr ''T'') (JInt 3600))) new_books))
      = Some (3600000000 + 3600 * 1000000)"
proof -
  let ?E = "always (token_response (JStr ''T'') (JInt 3600))"
  have r: "http ?E (calls new_books)
      = Response 200 (Some (JObj [(''access_token'', JStr ''T''), (''expires_in'', JInt 3600)]))"
    by (simp add: always_def token_response_def)
  have t: "map_of [(''access_token'', JStr ''T''), (''expires_in'', JInt 3600)] ''access_token''
      = Some (JStr ''T'')"
    by simp
  have "fst (refresh_access_token ?E new_books) = Inr ()"
    by (simp add: run_defs)
  then have ok: "refresh_access_token ?E new_books = (Inr (), snd (refresh_access_token ?E new_books))"
    by (metis prod.collapse)
  have c: "clock ?E (ticks new_books) = 3600000000" by (simp add: always_def)
  from refresh_success_token_and_expiry [OF r t ok] c show ?thesis by simp
qed




text \<open>
  Claim C2 at two responses that carry a new token and an \<^verbatim>\<open>expires_in\<close> that cannot be
  added to the clock: \<^verbatim>\<open>{"access_token": "new_token", "expires_in": "3600"}\<close>, where the
  seconds are a string, and \<^verbatim>\<open>{"access_token": "new_token", "expires_in": 1000000000000}\<close>,
  which leads beyond the year 9999. The refresh raises \<open>ZohoAuthError\<close>, the stored token
  has already become \<^verbatim>\<open>new_token\<close>, and the expiry is still the one of \<^verbatim>\<open>test_token\<close>.
\<close>

theorem refresh_malformed_expiry_partial_update:
  "fst (refresh_access_token (always (token_response (JStr ''new_token'') (JStr ''3600'')))
          books_with_token) = Inl (ZohoAuthError TypeError)
   \<and> self_access_token books_with_token = JStr ''test_token''
   \<and> self_access_token (snd (refresh_access_token
          (always (token_response (JStr ''new_token'') (JStr ''3600''))) books_with_token))
        = JStr ''new_token''
   \<and> self_token_expires_at (snd (refresh_access_token
          (always (token_response (JStr ''new_token'') (JStr ''3600''))) books_with_token))
        = self_token_expires_at books_with_token
   \<and> fst (refresh_access_token (always (token_response (JStr ''new_token'') (JInt 1000000000000)))
          books_with_token) = Inl (ZohoAuthError OverflowError)
   \<and> self_access_token (snd (refresh_access_token
          (always (token_response (JStr ''new_token'') (JInt 1000000000000))) books_with_token))
        = JStr ''new_token''
   \<and> self_token_expires_at (snd (refresh_access_token
          (always (token_response (JStr ''new_token'') (JInt 1000000000000))) books_with_token))
        = self_token_expires_at books_with_token"
  by (simp add: run_defs)

text \<open>
  Claim C10, as amended. After a refresh that returns normally on a response whose
  \<^verbatim>\<open>expires_in\<close> is absent or a positive integer, the stored token is the response's
  \<^verbatim>\<open>access_token\<close> value, and the token is not reported expired as long as the clock
  reads less than one second after the reading of the refresh.
\<close>

theorem refresh_success_token_not_expired:
  assumes "refresh_access_token E s = (Inr u, s')"
    and "http E (calls s) = Response code (Some (JObj kv))"
    and "map_of kv ''expires_in'' = None \<or> (\<exists>n. 0 < n \<and> map_of kv ''expires_in'' = Some (JInt n))"
    and "clock E (ticks s') < clock E (ticks s) + 1000000"
  shows "\<not> fst (token_expired E s') \<and> map_of kv ''access_token'' = Some (self_access_token s')"
  using assms
  by (auto simp: refresh_access_token_def refresh_try_def raise_for_status_def datetime_add_def
      Let_def token_expired_def split: option.splits sum.splits if_splits)

text \<open>The response of the test suite, \<^verbatim>\<open>new_token\<close> for 3600 seconds.\<close>

theorem refresh_success_token_not_expired_witness:
  "\<not> fst (token_expired (always (token_response (JStr ''new_token'') (JInt 3600)))
       (snd (refresh_access_token (always (token_response (JStr ''new_token'') (JInt 3600)))
          new_books)))
   \<and> self_access_token (snd (refresh_access_token
        (always (token_response (JStr ''new_token'') (JInt 3600))) new_books)) = JStr ''new_token''"
proof -
  let ?E = "always (token_response (JStr ''new_token'') (JInt 3600))"
  let ?s = "snd (refresh_access_token ?E new_books)"
  have r: "http ?E (calls new_books)
      = Response 200 (Some (JObj [(''access_token'', JStr ''new_token''), (''expires_in'', JInt 3600)]))"
    by (simp add: always_def token_response_def)
  have "fst (refresh_access_token ?E new_books) = Inr ()"
    by (simp add: run_defs)
  then have ok: "refresh_access_token ?E new_books = (Inr (), ?s)"
    by (metis prod.collapse)
  have p: "map_of [(''access_token'', JStr ''new_token''), (''expires_in'', JInt 3600)] ''expires_in'' = None
      \<or> (\<exists>n. 0 < n \<and> map_of [(''access_token'', JStr ''new_token''), (''expires_in'', JInt 3600)]
            ''expires_in'' = Some (JInt n))"
    by simp
  have c: "clock ?E (ticks ?s) < clock ?E (ticks new_books) + 1000000"
    by (simp add: always_def)
  from refresh_success_token_not_expired [OF ok r p c] show ?thesis by simp
qed

text \<open>
  Claim C10 as stated fails: on \<^verbatim>\<open>{"access_token": "", "expires_in": 3600}\<close> the refresh
  returns normally and the stored token is the empty string.
\<close>

theorem refresh_success_token_not_expired_counterexample:
  "fst (refresh_access_token (always (token_response (JStr '''') (JInt 3600))) new_books) = Inr ()
   \<and> self_access_token (snd (refresh_access_token
        (always (token_response (JStr '''') (JInt 3600))) new_books)) = JStr ''''
   \<and> \<not> truthy (self_access_token (snd (refresh_access_token
        (always (token_response (JStr '''') (JInt 3600))) new_books)))"
  by (simp add: run_defs)

section \<open>The request executor: claims C1, C5\<close>

text \<open>
  Claim C1 at a client holding a valid token whose every call is refused, and whose
  every call is answered with status 503: three requests are made, and what is raised is
  the \<open>RetryError\<close> of the third attempt, holding the \<open>ZohoAPIError\<close> of that attempt and
  its cause.
\<close>

theorem make_request_persistent_failure_raises_RetryError:
  "fst (make_request (always connection_refused) ''GET'' ''invoices'' None None books_with_token)
     = Inl (RetryError 3 (ZohoAPIError (RequestException ''Connection refused'')))
   \<and> length (request_params (trace (snd
        (make_request (always connection_refused) ''GET'' ''invoices'' None None books_with_token)))) = 3
   \<and> fst (make_request (always (Response 503 None)) ''GET'' ''invoices'' None None books_with_token)
     = Inl (RetryError 3 (ZohoAPIError (HTTPError 503)))"
  by (simp add: run_defs retry.simps)

text \<open>
  Claim C5, as amended. A request that fails has slept twice, 4 time-units each time:
  the delay after attempt \<open>n\<close> is \<open>2 ^ (n - 1)\<close> raised to at least 4 and cut at 10, which
  is 4 after the first and after the second attempt, and there is no delay after the
  third.
\<close>

theorem make_request_delays:
  assumes "fst (make_request E m ep ps d s) = Inl e"
  shows "sleeps (trace (snd (make_request E m ep ps d s))) = sleeps (trace s) @ [4, 4]"
proof -
  have "sleeps (trace (snd (make_request E m ep ps d s)))
      = sleeps (trace s) @ map (wait_exponential 1 4 10) [1..<3]"
    using assms
      retry_failure_sleeps [of "make_request_once E m ep ps d" 3 "wait_exponential 1 4 10" 1 s e]
    by (simp add: make_request_def make_request_once_sleeps)
  moreover have "[1..<3] = [1, 2]" by (simp add: upt_conv_Cons)
  ultimately show ?thesis by (simp add: wait_exponential_values)
qed

text \<open>A new client whose every call is answered with status 500.\<close>

theorem make_request_delays_witness:
  "fst (make_request (always (Response 500 None)) ''GET'' ''invoices'' None None new_books)
     = Inl (RetryError 3 (ZohoAuthError (HTTPError 500)))
   \<and> sleeps (trace (snd (make_request (always (Response 500 None)) ''GET'' ''invoices'' None None
        new_books))) = [4, 4]"
proof -
  have h: "fst (make_request (always (Response 500 None)) ''GET'' ''invoices'' None None new_books)
     = Inl (RetryError 3 (ZohoAuthError (HTTPError 500)))"
    by (simp add: run_defs retry.simps)
  from make_request_delays [OF h] h show ?thesis by (simp add: new_books_def)
qed

text \<open>
  Claim C5 as stated fails: with every call refused the delays are 4 and 4, not 4, 8
  and 10; the delay after the second attempt is not 8.
\<close>

theorem make_request_delays_counterexample:
  "sleeps (trace (snd (make_request (always connection_refused) ''GET'' ''invoices'' None None
      books_with_token))) = [4, 4]
   \<and> sleeps (trace (snd (make_request (always connection_refused) ''GET'' ''invoices'' None None
      books_with_token))) \<noteq> [4, 8, 10]
   \<and> wait_exponential 1 4 10 2 \<noteq> 8"
  by (simp add: run_defs retry.simps)

section \<open>The invoice accessor: claims C6, C7, C9\<close>





text \<open>
  Claim C9. An empty string for \<^verbatim>\<open>from_date\<close>, \<^verbatim>\<open>to_date\<close> or \<^verbatim>\<open>status\<close> gives the same
  run of \<^verbatim>\<open>get_invoices\<close>, requests and result, as leaving the argument out; with three
  empty strings the parameters are \<^verbatim>\<open>organization_id\<close> alone.
\<close>

theorem get_invoices_empty_string_is_absent:
  "get_invoices E (Some []) t st s = get_invoices E None t st s
   \<and> get_invoices E f (Some []) st s = get_invoices E f None st s
   \<and> get_invoices E f t (Some []) s = get_invoices E f t None s
   \<and> invoice_params c (Some []) (Some []) (Some []) = [(''organization_id'', organization_id c)]"
  by (simp add: get_invoices_def invoice_params_def Let_def)

text \<open>An empty start date beside an end date.\<close>

theorem get_invoices_empty_string_is_absent_witness:
  "get_invoices (always connection_refused) (Some '''') (Some ''2024-01-31'') None books_with_token
     = get_invoices (always connection_refused) None (Some ''2024-01-31'') None books_with_token
   \<and> invoice_params test_config (Some '''') (Some '''') (Some '''')
     = [(''organization_id'', ''test_org_id'')]"
  using get_invoices_empty_string_is_absent [where E = "always connection_refused"
      and t = "Some ''2024-01-31''" and st = None and s = books_with_token and c = test_config]
  by (simp add: test_config_def)

end
